theory Spec2Isabelle
  imports Main "HOL-Library.Sublist"
begin

section \<open>The VAPI Agent Creator: the submit workflow of \<open>App.tsx\<close>\<close>

text \<open>
  The component keeps six pieces of state (\<open>useState\<close>), runs three remote calls in
  order from \<open>handleSubmit\<close>, and derives the status of a progress step with
  \<open>getStepStatus\<close>. The embedding below follows \<open>src/src/App.tsx\<close>:
  \<^item> a JavaScript string is a \<open>string\<close>, each \<open>char\<close> being a code unit below 256;
  \<^item> a JavaScript value that comes out of \<open>JSON.parse\<close> or of a property read is a
    \<open>jsval\<close>; numbers are the integers (fractions and exponents are left out);
  \<^item> \<open>fetch\<close> is a parameter: a function from the request to what the remote end does;
  \<^item> a \<open>throw\<close> is the left summand of a sum type;
  \<^item> a state setter or a remote call is an event; an \<open>async\<close> function returns the
    events it caused, in order, and its outcome.
\<close>

subsection \<open>The data model\<close>

datatype Step =
  Idle | CreatingAssistant | PurchasingNumber | Associating | Complete | Error

datatype jsval =
  Undefined
  | JNull
  | JBool bool
  | JNum int
  | JStr string
  | JArr "jsval list"
  | JObj "(string \<times> jsval) list"

text \<open>A thrown value: an instance of \<open>Error\<close> with its message, or anything else.\<close>

datatype thrown = ThrownError string | ThrownOther

record AgentResult =
  assistantId :: jsval
  phoneNumberId :: jsval
  phoneNumber :: jsval
  agentName :: string

text \<open>The state of the component, one field for each \<open>useState\<close>.\<close>

record app_state =
  prompt_of :: string
  agentName_of :: string
  apiKey_of :: string
  step_of :: Step
  error_of :: "string option"
  result_of :: "AgentResult option"

text \<open>
  The argument of \<open>fetch\<close>. The body is the value handed to \<open>JSON.stringify\<close>.
\<close>

record request =
  url :: string
  http_method :: string
  headers :: "(string \<times> string) list"
  body :: jsval

text \<open>
  A response: \<open>response.ok\<close>, \<open>response.status\<close>, and what \<open>response.json()\<close> settles
  to (it rejects when the body does not parse).
\<close>

record response =
  ok :: bool
  status :: nat
  json :: "thrown + jsval"

datatype fetch_outcome = Rejected thrown | Responded response

datatype event =
  Fetch request
  | SetStep Step
  | SetError "string option"
  | SetResult "AgentResult option"
  | SetPrompt string
  | SetAgentName string
  | SetApiKey string

subsection \<open>JavaScript operations the handler relies on\<close>

text \<open>Decimal rendering of a number, as \<open>ToString\<close> does for an integer.\<close>

fun show_nat :: "nat \<Rightarrow> string" where
  "show_nat n =
     (if n < 10 then [''0123456789'' ! n]
      else show_nat (n div 10) @ [''0123456789'' ! (n mod 10)])"

declare show_nat.simps [simp del]

definition show_int :: "int \<Rightarrow> string" where
  "show_int i = (if i < 0 then CHR ''-'' # show_nat (nat (- i)) else show_nat (nat i))"

fun join :: "string \<Rightarrow> string list \<Rightarrow> string" where
  "join sep [] = []"
| "join sep [x] = x"
| "join sep (x # y # ys) = x @ sep @ join sep (y # ys)"

text \<open>
  \<open>ToString\<close>, which a template literal and \<open>new Error(v)\<close> apply. An array joins its
  elements with a comma, \<open>null\<close> and \<open>undefined\<close> elements rendered empty.
\<close>

fun to_string :: "jsval \<Rightarrow> string" where
  "to_string Undefined = ''undefined''"
| "to_string JNull = ''null''"
| "to_string (JBool b) = (if b then ''true'' else ''false'')"
| "to_string (JNum n) = show_int n"
| "to_string (JStr s) = s"
| "to_string (JArr xs) =
     join '','' (map (\<lambda>x. if x = JNull \<or> x = Undefined then [] else to_string x) xs)"
| "to_string (JObj kvs) = ''[object Object]''"

text \<open>\<open>ToBoolean\<close>: the falsy values are \<open>undefined\<close>, \<open>null\<close>, \<open>false\<close>, \<open>0\<close> and \<open>""\<close>.\<close>

fun truthy :: "jsval \<Rightarrow> bool" where
  "truthy Undefined = False"
| "truthy JNull = False"
| "truthy (JBool b) = b"
| "truthy (JNum n) = (n \<noteq> 0)"
| "truthy (JStr s) = (s \<noteq> [])"
| "truthy (JArr xs) = True"
| "truthy (JObj kvs) = True"

text \<open>
  A property read \<open>v.k\<close>, for the keys the code reads (\<open>message\<close>, \<open>id\<close>, \<open>number\<close>),
  none of which a primitive or an array has. On \<open>null\<close> and \<open>undefined\<close> the read throws
  a \<open>TypeError\<close>. In a parsed object the last of several equal keys wins.
\<close>

definition type_error_message :: "jsval \<Rightarrow> string \<Rightarrow> string" where
  "type_error_message v k =
     ''Cannot read properties of '' @ to_string v @ '' (reading '' @ [CHR 0x27] @ k @ [CHR 0x27] @ '')''"

fun get_prop :: "jsval \<Rightarrow> string \<Rightarrow> thrown + jsval" where
  "get_prop Undefined k = Inl (ThrownError (type_error_message Undefined k))"
| "get_prop JNull k = Inl (ThrownError (type_error_message JNull k))"
| "get_prop (JObj kvs) k = Inr (case map_of (rev kvs) k of None \<Rightarrow> Undefined | Some v \<Rightarrow> v)"
| "get_prop v k = Inr Undefined"

text \<open>
  \<open>String.prototype.trim\<close>: white space and line terminators go from both ends. Below
  256 these are TAB, LF, VT, FF, CR, SPACE and NBSP.
\<close>

definition is_space :: "char \<Rightarrow> bool" where
  "is_space c = (c \<in> {CHR 0x09, CHR 0x0A, CHR 0x0B, CHR 0x0C, CHR 0x0D, CHR 0x20, CHR 0xA0})"

definition trim :: "string \<Rightarrow> string" where
  "trim s = rev (dropWhile is_space (rev (dropWhile is_space s)))"

text \<open>\<open>a || b\<close> on strings: the empty string is falsy.\<close>

definition or_else :: "string \<Rightarrow> string \<Rightarrow> string" where
  "or_else a b = (if a \<noteq> [] then a else b)"

text \<open>\<open>Array.prototype.indexOf\<close>: the first index holding the element, or \<open>-1\<close>.\<close>

fun indexOf_from :: "nat \<Rightarrow> 'a list \<Rightarrow> 'a \<Rightarrow> int" where
  "indexOf_from k [] x = - 1"
| "indexOf_from k (y # ys) x = (if y = x then int k else indexOf_from (Suc k) ys x)"

definition indexOf :: "'a list \<Rightarrow> 'a \<Rightarrow> int" where
  "indexOf xs x = indexOf_from 0 xs x"

subsection \<open>\<open>getStepStatus\<close>\<close>

definition stepOrder :: "Step list" where
  "stepOrder = [CreatingAssistant, PurchasingNumber, Associating, Complete]"

definition getStepStatus :: "Step \<Rightarrow> Step \<Rightarrow> string" where
  "getStepStatus step targetStep =
     (let currentIndex = indexOf stepOrder step;
          targetIndex = indexOf stepOrder targetStep
      in if currentIndex = - 1 then ''pending''
         else if targetIndex < currentIndex then ''completed''
         else if targetIndex = currentIndex then ''active''
         else ''pending'')"

subsection \<open>Events and their effect on the state\<close>

fun apply_event :: "app_state \<Rightarrow> event \<Rightarrow> app_state" where
  "apply_event s (Fetch r) = s"
| "apply_event s (SetStep v) = s\<lparr>step_of := v\<rparr>"
| "apply_event s (SetError v) = s\<lparr>error_of := v\<rparr>"
| "apply_event s (SetResult v) = s\<lparr>result_of := v\<rparr>"
| "apply_event s (SetPrompt v) = s\<lparr>prompt_of := v\<rparr>"
| "apply_event s (SetAgentName v) = s\<lparr>agentName_of := v\<rparr>"
| "apply_event s (SetApiKey v) = s\<lparr>apiKey_of := v\<rparr>"

definition final_state :: "app_state \<Rightarrow> event list \<Rightarrow> app_state" where
  "final_state s evs = foldl apply_event s evs"

text \<open>The remote calls of a run, and the values it gave to \<open>setStep\<close>, in order.\<close>

fun calls :: "event list \<Rightarrow> request list" where
  "calls [] = []"
| "calls (Fetch r # evs) = r # calls evs"
| "calls (ev # evs) = calls evs"

fun steps_set :: "event list \<Rightarrow> Step list" where
  "steps_set [] = []"
| "steps_set (SetStep v # evs) = v # steps_set evs"
| "steps_set (ev # evs) = steps_set evs"

text \<open>
  An \<open>async\<close> computation: the events so far and either the thrown value or the result.
  \<open>bind_ev\<close> is sequencing with \<open>await\<close>: a throw skips what follows.
\<close>

type_synonym 'a async = "event list \<times> (thrown + 'a)"

definition emit :: "event \<Rightarrow> unit async" where
  "emit ev = ([ev], Inr ())"

definition bind_ev :: "'a async \<Rightarrow> ('a \<Rightarrow> 'b async) \<Rightarrow> 'b async" where
  "bind_ev m f =
     (case snd m of
        Inl e \<Rightarrow> (fst m, Inl e)
      | Inr a \<Rightarrow> (fst m @ fst (f a), snd (f a)))"

subsection \<open>The three remote calls\<close>

definition generateSystemPrompt :: "string \<Rightarrow> string" where
  "generateSystemPrompt description =
     ''You are an AI assistant created with the following purpose and behavior:\<newline>\<newline>''
     @ description
     @ ''\<newline>\<newline>Guidelines:\<newline>''
     @ ''- Be helpful, professional, and conversational\<newline>''
     @ ''- Stay focused on your defined purpose\<newline>''
     @ ''- If asked about topics outside your scope, politely redirect the conversation\<newline>''
     @ ''- Be concise but thorough in your responses\<newline>''
     @ ''- Maintain a friendly and approachable tone''"

definition auth_headers :: "app_state \<Rightarrow> (string \<times> string) list" where
  "auth_headers s =
     [(''Authorization'', ''Bearer '' @ apiKey_of s), (''Content-Type'', ''application/json'')]"

text \<open>\<open>await response.json().catch(() => ({}))\<close>\<close>

definition error_data :: "response \<Rightarrow> jsval" where
  "error_data r = (case json r of Inl e \<Rightarrow> JObj [] | Inr v \<Rightarrow> v)"

text \<open>
  What a call throws on a response that is not ok:
  \<open>new Error(errorData.message || `<label>${response.status}`)\<close>, the label being
  the fixed text of the call, such as \<open>Failed to create assistant: \<close>.
\<close>

definition failure :: "string \<Rightarrow> response \<Rightarrow> thrown" where
  "failure label r =
     (case get_prop (error_data r) ''message'' of
        Inl e \<Rightarrow> e
      | Inr m \<Rightarrow> ThrownError (if truthy m then to_string m else label @ show_nat (status r)))"

definition first_message :: "app_state \<Rightarrow> string" where
  "first_message s =
     ''Hello! I'' @ [CHR 0x27] @ ''m '' @ or_else (agentName_of s) ''your AI assistant''
     @ ''. How can I help you today?''"

definition createAssistant_request :: "app_state \<Rightarrow> request" where
  "createAssistant_request s =
     \<lparr>url = ''https://api.vapi.ai/assistant'',
      http_method = ''POST'',
      headers = auth_headers s,
      body = JObj
        [(''name'', JStr (or_else (agentName_of s) ''VAPI Agent'')),
         (''model'', JObj
            [(''provider'', JStr ''openai''),
             (''model'', JStr ''gpt-4o''),
             (''messages'', JArr
                [JObj [(''role'', JStr ''system''),
                       (''content'', JStr (generateSystemPrompt (prompt_of s)))]])]),
         (''voice'', JObj [(''provider'', JStr ''11labs''), (''voiceId'', JStr ''sarah'')]),
         (''firstMessage'', JStr (first_message s))]\<rparr>"

definition createAssistant :: "(request \<Rightarrow> fetch_outcome) \<Rightarrow> app_state \<Rightarrow> jsval async" where
  "createAssistant fetch s =
     ([Fetch (createAssistant_request s)],
      case fetch (createAssistant_request s) of
        Rejected e \<Rightarrow> Inl e
      | Responded response \<Rightarrow>
          if \<not> ok response then Inl (failure ''Failed to create assistant: '' response)
          else (case json response of
                  Inl e \<Rightarrow> Inl e
                | Inr data \<Rightarrow> get_prop data ''id''))"

definition purchasePhoneNumber_request :: "app_state \<Rightarrow> request" where
  "purchasePhoneNumber_request s =
     \<lparr>url = ''https://api.vapi.ai/phone-number/buy'',
      http_method = ''POST'',
      headers = auth_headers s,
      body = JObj
        [(''areaCode'', JStr ''415''),
         (''name'', JStr (or_else (agentName_of s) ''VAPI Agent Number''))]\<rparr>"

definition purchasePhoneNumber ::
  "(request \<Rightarrow> fetch_outcome) \<Rightarrow> app_state \<Rightarrow> (jsval \<times> jsval) async" where
  "purchasePhoneNumber fetch s =
     ([Fetch (purchasePhoneNumber_request s)],
      case fetch (purchasePhoneNumber_request s) of
        Rejected e \<Rightarrow> Inl e
      | Responded searchResponse \<Rightarrow>
          if \<not> ok searchResponse
          then Inl (failure ''Failed to purchase phone number: '' searchResponse)
          else (case json searchResponse of
                  Inl e \<Rightarrow> Inl e
                | Inr data \<Rightarrow>
                    (case get_prop data ''id'' of
                       Inl e \<Rightarrow> Inl e
                     | Inr i \<Rightarrow>
                         (case get_prop data ''number'' of
                            Inl e \<Rightarrow> Inl e
                          | Inr n \<Rightarrow> Inr (i, n)))))"

definition associatePhoneNumber_request :: "app_state \<Rightarrow> jsval \<Rightarrow> jsval \<Rightarrow> request" where
  "associatePhoneNumber_request s phone_id assistant_id =
     \<lparr>url = ''https://api.vapi.ai/phone-number/'' @ to_string phone_id,
      http_method = ''PATCH'',
      headers = auth_headers s,
      body = JObj [(''assistantId'', assistant_id)]\<rparr>"

definition associatePhoneNumber ::
  "(request \<Rightarrow> fetch_outcome) \<Rightarrow> app_state \<Rightarrow> jsval \<Rightarrow> jsval \<Rightarrow> unit async" where
  "associatePhoneNumber fetch s phone_id assistant_id =
     ([Fetch (associatePhoneNumber_request s phone_id assistant_id)],
      case fetch (associatePhoneNumber_request s phone_id assistant_id) of
        Rejected e \<Rightarrow> Inl e
      | Responded response \<Rightarrow>
          if \<not> ok response then Inl (failure ''Failed to associate phone number: '' response)
          else Inr ())"

subsection \<open>\<open>handleSubmit\<close>\<close>

text \<open>
  The body of the \<open>try\<close>. The parameters and locals \<open>assistantId\<close>, \<open>phoneNumberId\<close> and
  \<open>phoneNumber\<close> are \<open>assistant_id\<close>, \<open>phone_id\<close> and \<open>phone_number\<close> here.
\<close>

definition try_block :: "(request \<Rightarrow> fetch_outcome) \<Rightarrow> app_state \<Rightarrow> unit async" where
  "try_block fetch s =
     bind_ev (emit (SetStep CreatingAssistant)) (\<lambda>_.
     bind_ev (createAssistant fetch s) (\<lambda>assistant_id.
     bind_ev (emit (SetStep PurchasingNumber)) (\<lambda>_.
     bind_ev (purchasePhoneNumber fetch s) (case_prod (\<lambda>phone_id phone_number.
     bind_ev (emit (SetStep Associating)) (\<lambda>_.
     bind_ev (associatePhoneNumber fetch s phone_id assistant_id) (\<lambda>_.
     bind_ev (emit (SetStep Complete)) (\<lambda>_.
     emit (SetResult (Some
       \<lparr>assistantId = assistant_id,
        phoneNumberId = phone_id,
        phoneNumber = phone_number,
        agentName = or_else (agentName_of s) ''VAPI Agent''\<rparr>))))))))))"

text \<open>\<open>err instanceof Error ? err.message : 'An unexpected error occurred'\<close>\<close>

definition catch_message :: "thrown \<Rightarrow> string" where
  "catch_message err =
     (case err of ThrownError m \<Rightarrow> m | ThrownOther \<Rightarrow> ''An unexpected error occurred'')"

definition catch_block :: "thrown \<Rightarrow> event list" where
  "catch_block err = [SetStep Error, SetError (Some (catch_message err))]"

definition handleSubmit :: "(request \<Rightarrow> fetch_outcome) \<Rightarrow> app_state \<Rightarrow> event list" where
  "handleSubmit fetch s =
     (if trim (prompt_of s) = [] \<or> trim (apiKey_of s) = []
      then [SetError (Some ''Please fill in all required fields'')]
      else [SetError None, SetResult None]
           @ fst (try_block fetch s)
           @ (case snd (try_block fetch s) of
                Inl err \<Rightarrow> catch_block err
              | Inr u \<Rightarrow> []))"

subsection \<open>The form\<close>

text \<open>
  The inputs and the submit button carry \<open>disabled={step !== 'idle' && step !== 'error'}\<close>:
  the user can type and submit only while the step is \<open>idle\<close> or \<open>error\<close>.
\<close>

definition form_disabled :: "app_state \<Rightarrow> bool" where
  "form_disabled s = (step_of s \<noteq> Idle \<and> step_of s \<noteq> Error)"

datatype ui_action =
  TypeApiKey string
  | TypeAgentName string
  | TypePrompt string
  | SubmitForm "request \<Rightarrow> fetch_outcome"

definition ui_handle :: "app_state \<Rightarrow> ui_action \<Rightarrow> event list" where
  "ui_handle s a =
     (if form_disabled s then []
      else (case a of
              TypeApiKey v \<Rightarrow> [SetApiKey v]
            | TypeAgentName v \<Rightarrow> [SetAgentName v]
            | TypePrompt v \<Rightarrow> [SetPrompt v]
            | SubmitForm fetch \<Rightarrow> handleSubmit fetch s))"

fun session :: "app_state \<Rightarrow> ui_action list \<Rightarrow> event list" where
  "session s [] = []"
| "session s (a # as) = ui_handle s a @ session (final_state s (ui_handle s a)) as"

definition initial_state :: app_state where
  "initial_state =
     \<lparr>prompt_of = [], agentName_of = [], apiKey_of = [],
      step_of = Idle, error_of = None, result_of = None\<rparr>"

section \<open>The specification's notions\<close>

text \<open>
  The index of a step in the ordered step list, and the step status as the specification
  words it: \<open>completed\<close> if the queried step's index is strictly less than the current
  state's index, \<open>active\<close> if equal, \<open>pending\<close> otherwise.
\<close>

definition spec_index :: "Step \<Rightarrow> nat option" where
  "spec_index x =
     (if x \<in> set stepOrder then Some (length (takeWhile (\<lambda>y. y \<noteq> x) stepOrder)) else None)"

definition step_status_spec :: "Step \<Rightarrow> Step \<Rightarrow> string" where
  "step_status_spec current queried =
     (case spec_index current of
        None \<Rightarrow> ''pending''
      | Some c \<Rightarrow>
          (case spec_index queried of
             None \<Rightarrow> ''pending''
           | Some q \<Rightarrow> if q < c then ''completed'' else if q = c then ''active'' else ''pending''))"

text \<open>
  A request passes validation when the description and the credential are non-empty
  after trimming. A remote call fails on a network failure or a response that is not ok.
\<close>

definition valid_input :: "app_state \<Rightarrow> bool" where
  "valid_input s = (trim (prompt_of s) \<noteq> [] \<and> trim (apiKey_of s) \<noteq> [])"

definition remote_failed :: "fetch_outcome \<Rightarrow> bool" where
  "remote_failed out = (case out of Rejected e \<Rightarrow> True | Responded r \<Rightarrow> \<not> ok r)"

text \<open>
  The order of the workflow states, and the transitions the specification allows:
  strictly forward in the order; to \<open>error\<close> from an in-progress state; from \<open>error\<close>
  only to the first step, a run from the beginning.
\<close>

definition spec_order :: "Step list" where
  "spec_order = [Idle, CreatingAssistant, PurchasingNumber, Associating, Complete]"

definition in_progress :: "Step \<Rightarrow> bool" where
  "in_progress t = (t = CreatingAssistant \<or> t = PurchasingNumber \<or> t = Associating)"

definition spec_transition :: "Step \<Rightarrow> Step \<Rightarrow> bool" where
  "spec_transition a b =
     (if b = Error then in_progress a
      else if a = Error then b = CreatingAssistant
      else indexOf spec_order a < indexOf spec_order b)"

text \<open>
  The message a server sends with a failure: the \<open>message\<close> field of a JSON object,
  when it is a non-empty string. A response has no message when its body does not parse,
  or parses to a value other than \<open>null\<close> whose \<open>message\<close> is missing or falsy.
\<close>

definition server_message :: "response \<Rightarrow> string option" where
  "server_message r =
     (case json r of
        Inr (JObj kvs) \<Rightarrow>
          (case map_of (rev kvs) ''message'' of
             Some (JStr m) \<Rightarrow> if m \<noteq> [] then Some m else None
           | _ \<Rightarrow> None)
      | _ \<Rightarrow> None)"

definition no_message :: "response \<Rightarrow> bool" where
  "no_message r =
     (case json r of
        Inl e \<Rightarrow> True
      | Inr JNull \<Rightarrow> False
      | Inr Undefined \<Rightarrow> False
      | Inr (JObj kvs) \<Rightarrow>
          (case map_of (rev kvs) ''message'' of None \<Rightarrow> True | Some v \<Rightarrow> \<not> truthy v)
      | Inr v \<Rightarrow> True)"

text \<open>
  A failure that is not a response with a failing status: \<open>fetch\<close> rejects (no
  response), or the body of an ok response does not parse.
\<close>

definition network_failure :: "fetch_outcome \<Rightarrow> thrown option" where
  "network_failure out = (case out of Rejected e \<Rightarrow> Some e | Responded r \<Rightarrow> None)"

definition malformed_response :: "fetch_outcome \<Rightarrow> thrown option" where
  "malformed_response out =
     (case out of
        Rejected e \<Rightarrow> None
      | Responded r \<Rightarrow> if ok r then (case json r of Inl e \<Rightarrow> Some e | Inr v \<Rightarrow> None) else None)"

section \<open>Scenarios\<close>

text \<open>
  A remote end that answers each of the three calls with a fixed outcome: the call is
  told by its method and address. The states and outcomes of the scenarios below are
  those of the end-to-end examples.
\<close>

definition scripted_fetch ::
  "fetch_outcome \<Rightarrow> fetch_outcome \<Rightarrow> fetch_outcome \<Rightarrow> request \<Rightarrow> fetch_outcome" where
  "scripted_fetch create purchase associate r =
     (if http_method r = ''PATCH'' then associate
      else if url r = ''https://api.vapi.ai/assistant'' then create
      else purchase)"

definition blank_prompt_state :: app_state where
  "blank_prompt_state =
     \<lparr>prompt_of = ''   '', agentName_of = ''Coffee Bot'', apiKey_of = ''sk_test_123'',
      step_of = Error, error_of = Some ''Failed to fetch'', result_of = None\<rparr>"

definition coffee_state :: app_state where
  "coffee_state =
     \<lparr>prompt_of = ''Answer coffee shop questions'', agentName_of = ''Coffee Bot'',
      apiKey_of = ''sk_test_123'', step_of = Idle, error_of = None, result_of = None\<rparr>"

definition created_a1 :: fetch_outcome where
  "created_a1 = Responded \<lparr>ok = True, status = 201, json = Inr (JObj [(''id'', JStr ''a1'')])\<rparr>"

definition purchased_p1 :: fetch_outcome where
  "purchased_p1 =
     Responded \<lparr>ok = True, status = 201,
       json = Inr (JObj [(''id'', JStr ''p1''), (''number'', JStr ''+14155551234'')])\<rparr>"

definition associated_200 :: fetch_outcome where
  "associated_200 =
     Responded \<lparr>ok = True, status = 200, json = Inl (ThrownError ''Unexpected end of JSON input'')\<rparr>"

definition server_error_500 :: fetch_outcome where
  "server_error_500 =
     Responded \<lparr>ok = False, status = 500, json = Inl (ThrownError ''Unexpected end of JSON input'')\<rparr>"

definition coffee_fetch :: "request \<Rightarrow> fetch_outcome" where
  "coffee_fetch = scripted_fetch created_a1 purchased_p1 associated_200"

definition create_fails_fetch :: "request \<Rightarrow> fetch_outcome" where
  "create_fails_fetch = scripted_fetch server_error_500 purchased_p1 associated_200"

definition purchase_fails_fetch :: "request \<Rightarrow> fetch_outcome" where
  "purchase_fails_fetch = scripted_fetch created_a1 server_error_500 associated_200"

definition associate_fails_fetch :: "request \<Rightarrow> fetch_outcome" where
  "associate_fails_fetch = scripted_fetch created_a1 purchased_p1 server_error_500"

definition nameless_state :: app_state where
  "nameless_state =
     \<lparr>prompt_of = ''Answer coffee shop questions'', agentName_of = [],
      apiKey_of = ''sk_test_123'', step_of = Idle, error_of = None, result_of = None\<rparr>"

definition quota_exceeded_429 :: fetch_outcome where
  "quota_exceeded_429 =
     Responded \<lparr>ok = False, status = 429,
       json = Inr (JObj [(''message'', JStr ''quota exceeded'')])\<rparr>"

definition empty_message_429 :: fetch_outcome where
  "empty_message_429 =
     Responded \<lparr>ok = False, status = 429, json = Inr (JObj [(''message'', JStr [])])\<rparr>"

definition network_down :: fetch_outcome where
  "network_down = Rejected (ThrownError ''Failed to fetch'')"

definition unparseable_200 :: fetch_outcome where
  "unparseable_200 =
     Responded \<lparr>ok = True, status = 200,
       json = Inl (ThrownError ''Unexpected token < in JSON at position 0'')\<rparr>"

definition retry_state :: app_state where
  "retry_state =
     \<lparr>prompt_of = ''Answer coffee shop questions'', agentName_of = ''Coffee Bot'',
      apiKey_of = ''sk_test_123'', step_of = Error,
      error_of = Some ''Failed to create assistant: 500'', result_of = None\<rparr>"

definition offline_fetch :: "request \<Rightarrow> fetch_outcome" where
  "offline_fetch = scripted_fetch network_down network_down network_down"

definition fill_in_form :: "ui_action list" where
  "fill_in_form =
     [TypeApiKey ''sk_test_123'', TypeAgentName ''Coffee Bot'',
      TypePrompt ''Answer coffee shop questions'']"

definition other_throw :: fetch_outcome where
  "other_throw = Rejected ThrownOther"

section \<open>Properties of the step status\<close>

lemma indexOf_stepOrder:
  "indexOf stepOrder Idle = - 1"
  "indexOf stepOrder CreatingAssistant = 0"
  "indexOf stepOrder PurchasingNumber = 1"
  "indexOf stepOrder Associating = 2"
  "indexOf stepOrder Complete = 3"
  "indexOf stepOrder Error = - 1"
  by (simp_all add: indexOf_def stepOrder_def)

lemma spec_index_stepOrder:
  "spec_index Idle = None"
  "spec_index CreatingAssistant = Some 0"
  "spec_index PurchasingNumber = Some 1"
  "spec_index Associating = Some 2"
  "spec_index Complete = Some 3"
  "spec_index Error = None"
  by (simp_all add: spec_index_def stepOrder_def)

lemma in_stepOrder:
  "x \<in> set stepOrder \<longleftrightarrow>
     x = CreatingAssistant \<or> x = PurchasingNumber \<or> x = Associating \<or> x = Complete"
  by (auto simp: stepOrder_def)

text \<open>
  C2. For a queried step of the ordered list, \<open>getStepStatus\<close> is the status by index:
  \<open>completed\<close> when the queried index is strictly below the current one, \<open>active\<close> when
  they are equal, \<open>pending\<close> otherwise. When the current state is \<open>idle\<close> or \<open>error\<close>,
  every queried step is \<open>pending\<close>. The result depends on the two steps only.
\<close>

theorem getStepStatus_by_index:
  "(queried \<in> set stepOrder \<longrightarrow>
      getStepStatus current queried = step_status_spec current queried)
   \<and> (current = Idle \<or> current = Error \<longrightarrow> getStepStatus current anystep = ''pending'')"
proof (intro conjI impI)
  assume "queried \<in> set stepOrder"
  then have q: "queried = CreatingAssistant \<or> queried = PurchasingNumber
      \<or> queried = Associating \<or> queried = Complete"
    by (simp add: in_stepOrder)
  show "getStepStatus current queried = step_status_spec current queried"
    using q
    by (cases current)
      (auto simp: getStepStatus_def step_status_spec_def indexOf_stepOrder spec_index_stepOrder)
next
  assume "current = Idle \<or> current = Error"
  then show "getStepStatus current anystep = ''pending''"
    by (auto simp: getStepStatus_def indexOf_stepOrder)
qed

theorem getStepStatus_by_index_witness:
  "PurchasingNumber \<in> set stepOrder
   \<and> getStepStatus Associating PurchasingNumber = ''completed''
   \<and> getStepStatus Error Complete = ''pending''"
proof -
  have "getStepStatus Associating PurchasingNumber = step_status_spec Associating PurchasingNumber"
    and "getStepStatus Error Complete = ''pending''"
    using getStepStatus_by_index [of PurchasingNumber Associating Complete]
      getStepStatus_by_index [of PurchasingNumber Error Complete]
    by (simp_all add: in_stepOrder)
  then show ?thesis
    by (simp add: step_status_spec_def spec_index_stepOrder in_stepOrder)
qed

text \<open>
  C10. Queried with \<open>idle\<close> or \<open>error\<close>, which the ordered list does not hold, while the
  current state is in the list, \<open>getStepStatus\<close> answers \<open>completed\<close>: the queried
  index is \<open>-1\<close>, below every index of the list.
\<close>

theorem getStepStatus_outside_query:
  "(queried = Idle \<or> queried = Error) \<Longrightarrow> current \<in> set stepOrder \<Longrightarrow>
     getStepStatus current queried = ''completed''"
  by (auto simp: getStepStatus_def indexOf_stepOrder in_stepOrder)

theorem getStepStatus_outside_query_witness:
  "(Idle = Idle \<or> Idle = Error) \<and> Associating \<in> set stepOrder
   \<and> getStepStatus Associating Idle = ''completed''"
  using getStepStatus_outside_query [of Idle Associating]
  by (simp add: in_stepOrder)

section \<open>Properties of \<open>handleSubmit\<close>\<close>

subsection \<open>The four shapes of a run\<close>

lemma fst_calls [simp]:
  "fst (createAssistant fetch s) = [Fetch (createAssistant_request s)]"
  "fst (purchasePhoneNumber fetch s) = [Fetch (purchasePhoneNumber_request s)]"
  "fst (associatePhoneNumber fetch s p a) = [Fetch (associatePhoneNumber_request s p a)]"
  by (simp_all add: createAssistant_def purchasePhoneNumber_def associatePhoneNumber_def)

lemma try_block_unfold:
  "try_block fetch s =
     (case snd (createAssistant fetch s) of
        Inl e \<Rightarrow> ([SetStep CreatingAssistant, Fetch (createAssistant_request s)], Inl e)
      | Inr a \<Rightarrow>
          (case snd (purchasePhoneNumber fetch s) of
             Inl e \<Rightarrow>
               ([SetStep CreatingAssistant, Fetch (createAssistant_request s),
                 SetStep PurchasingNumber, Fetch (purchasePhoneNumber_request s)], Inl e)
           | Inr p \<Rightarrow>
               (case snd (associatePhoneNumber fetch s (fst p) a) of
                  Inl e \<Rightarrow>
                    ([SetStep CreatingAssistant, Fetch (createAssistant_request s),
                      SetStep PurchasingNumber, Fetch (purchasePhoneNumber_request s),
                      SetStep Associating, Fetch (associatePhoneNumber_request s (fst p) a)],
                     Inl e)
                | Inr u \<Rightarrow>
                    ([SetStep CreatingAssistant, Fetch (createAssistant_request s),
                      SetStep PurchasingNumber, Fetch (purchasePhoneNumber_request s),
                      SetStep Associating, Fetch (associatePhoneNumber_request s (fst p) a),
                      SetStep Complete,
                      SetResult (Some \<lparr>assistantId = a, phoneNumberId = fst p,
                        phoneNumber = snd p,
                        agentName = or_else (agentName_of s) ''VAPI Agent''\<rparr>)],
                     Inr ()))))"
  by (simp add: try_block_def bind_ev_def emit_def split: sum.splits prod.splits)

lemma run_invalid:
  "\<not> valid_input s \<Longrightarrow>
     handleSubmit fetch s = [SetError (Some ''Please fill in all required fields'')]"
  by (auto simp: handleSubmit_def valid_input_def)

lemma run_fail1:
  "valid_input s \<Longrightarrow> snd (createAssistant fetch s) = Inl e \<Longrightarrow>
     handleSubmit fetch s =
       [SetError None, SetResult None,
        SetStep CreatingAssistant, Fetch (createAssistant_request s),
        SetStep Error, SetError (Some (catch_message e))]"
  by (simp add: handleSubmit_def valid_input_def try_block_unfold catch_block_def)

lemma run_fail2:
  "valid_input s \<Longrightarrow> snd (createAssistant fetch s) = Inr a \<Longrightarrow>
   snd (purchasePhoneNumber fetch s) = Inl e \<Longrightarrow>
     handleSubmit fetch s =
       [SetError None, SetResult None,
        SetStep CreatingAssistant, Fetch (createAssistant_request s),
        SetStep PurchasingNumber, Fetch (purchasePhoneNumber_request s),
        SetStep Error, SetError (Some (catch_message e))]"
  by (simp add: handleSubmit_def valid_input_def try_block_unfold catch_block_def)

lemma run_fail3:
  "valid_input s \<Longrightarrow> snd (createAssistant fetch s) = Inr a \<Longrightarrow>
   snd (purchasePhoneNumber fetch s) = Inr (p, n) \<Longrightarrow>
   snd (associatePhoneNumber fetch s p a) = Inl e \<Longrightarrow>
     handleSubmit fetch s =
       [SetError None, SetResult None,
        SetStep CreatingAssistant, Fetch (createAssistant_request s),
        SetStep PurchasingNumber, Fetch (purchasePhoneNumber_request s),
        SetStep Associating, Fetch (associatePhoneNumber_request s p a),
        SetStep Error, SetError (Some (catch_message e))]"
  by (simp add: handleSubmit_def valid_input_def try_block_unfold catch_block_def)

lemma run_success:
  "valid_input s \<Longrightarrow> snd (createAssistant fetch s) = Inr a \<Longrightarrow>
   snd (purchasePhoneNumber fetch s) = Inr (p, n) \<Longrightarrow>
   snd (associatePhoneNumber fetch s p a) = Inr u \<Longrightarrow>
     handleSubmit fetch s =
       [SetError None, SetResult None,
        SetStep CreatingAssistant, Fetch (createAssistant_request s),
        SetStep PurchasingNumber, Fetch (purchasePhoneNumber_request s),
        SetStep Associating, Fetch (associatePhoneNumber_request s p a),
        SetStep Complete,
        SetResult (Some \<lparr>assistantId = a, phoneNumberId = p, phoneNumber = n,
          agentName = or_else (agentName_of s) ''VAPI Agent''\<rparr>)]"
  by (simp add: handleSubmit_def valid_input_def try_block_unfold catch_block_def)

lemma run_cases:
  assumes "valid_input s"
  obtains
    (fail1) e where "snd (createAssistant fetch s) = Inl e"
  | (fail2) a e where "snd (createAssistant fetch s) = Inr a"
      "snd (purchasePhoneNumber fetch s) = Inl e"
  | (fail3) a p n e where "snd (createAssistant fetch s) = Inr a"
      "snd (purchasePhoneNumber fetch s) = Inr (p, n)"
      "snd (associatePhoneNumber fetch s p a) = Inl e"
  | (success) a p n where "snd (createAssistant fetch s) = Inr a"
      "snd (purchasePhoneNumber fetch s) = Inr (p, n)"
      "snd (associatePhoneNumber fetch s p a) = Inr ()"
proof (cases "snd (createAssistant fetch s)")
  case (Inl e)
  then show ?thesis by (rule fail1)
next
  case a: (Inr a)
  show ?thesis
  proof (cases "snd (purchasePhoneNumber fetch s)")
    case (Inl e)
    with a show ?thesis by (rule fail2)
  next
    case (Inr pn)
    then obtain p n where pn: "snd (purchasePhoneNumber fetch s) = Inr (p, n)"
      by (cases pn) simp
    show ?thesis
    proof (cases "snd (associatePhoneNumber fetch s p a)")
      case (Inl e)
      with a pn show ?thesis by (rule fail3)
    next
      case (Inr u)
      with a pn show ?thesis by (auto intro: success)
    qed
  qed
qed

subsection \<open>Aborting, success and validation\<close>

lemma failed_call:
  "remote_failed (fetch (createAssistant_request s)) \<Longrightarrow>
     \<exists>e. snd (createAssistant fetch s) = Inl e"
  "remote_failed (fetch (purchasePhoneNumber_request s)) \<Longrightarrow>
     \<exists>e. snd (purchasePhoneNumber fetch s) = Inl e"
  "remote_failed (fetch (associatePhoneNumber_request s p a)) \<Longrightarrow>
     \<exists>e. snd (associatePhoneNumber fetch s p a) = Inl e"
  by (auto simp: remote_failed_def createAssistant_def purchasePhoneNumber_def
      associatePhoneNumber_def split: fetch_outcome.splits)

text \<open>
  C1. On a valid request, a remote call that fails ends the run at once: the calls made
  are those up to and including the failing one, the final state is \<open>error\<close> and the
  result is absent. This holds for a failure of create-assistant, of purchase-number
  after create-assistant returned, and of associate-number after both returned.
\<close>

theorem failed_call_aborts:
  assumes "valid_input s"
  shows "(remote_failed (fetch (createAssistant_request s)) \<longrightarrow>
            calls (handleSubmit fetch s) = [createAssistant_request s]
            \<and> step_of (final_state s (handleSubmit fetch s)) = Error
            \<and> result_of (final_state s (handleSubmit fetch s)) = None)
       \<and> (snd (createAssistant fetch s) = Inr a
            \<and> remote_failed (fetch (purchasePhoneNumber_request s)) \<longrightarrow>
            calls (handleSubmit fetch s) = [createAssistant_request s, purchasePhoneNumber_request s]
            \<and> step_of (final_state s (handleSubmit fetch s)) = Error
            \<and> result_of (final_state s (handleSubmit fetch s)) = None)
       \<and> (snd (createAssistant fetch s) = Inr a
            \<and> snd (purchasePhoneNumber fetch s) = Inr (p, n)
            \<and> remote_failed (fetch (associatePhoneNumber_request s p a)) \<longrightarrow>
            calls (handleSubmit fetch s) =
              [createAssistant_request s, purchasePhoneNumber_request s,
               associatePhoneNumber_request s p a]
            \<and> step_of (final_state s (handleSubmit fetch s)) = Error
            \<and> result_of (final_state s (handleSubmit fetch s)) = None)"
proof (intro conjI impI)
  assume "remote_failed (fetch (createAssistant_request s))"
  then obtain e where "snd (createAssistant fetch s) = Inl e"
    using failed_call(1) by blast
  note run = run_fail1 [OF assms this]
  show "calls (handleSubmit fetch s) = [createAssistant_request s]"
    "step_of (final_state s (handleSubmit fetch s)) = Error"
    "result_of (final_state s (handleSubmit fetch s)) = None"
    by (simp_all add: run final_state_def)
next
  assume "snd (createAssistant fetch s) = Inr a
    \<and> remote_failed (fetch (purchasePhoneNumber_request s))"
  then obtain e where "snd (createAssistant fetch s) = Inr a"
    "snd (purchasePhoneNumber fetch s) = Inl e"
    using failed_call(2) by blast
  note run = run_fail2 [OF assms this]
  show "calls (handleSubmit fetch s) = [createAssistant_request s, purchasePhoneNumber_request s]"
    "step_of (final_state s (handleSubmit fetch s)) = Error"
    "result_of (final_state s (handleSubmit fetch s)) = None"
    by (simp_all add: run final_state_def)
next
  assume "snd (createAssistant fetch s) = Inr a
    \<and> snd (purchasePhoneNumber fetch s) = Inr (p, n)
    \<and> remote_failed (fetch (associatePhoneNumber_request s p a))"
  then obtain e where "snd (createAssistant fetch s) = Inr a"
    "snd (purchasePhoneNumber fetch s) = Inr (p, n)"
    "snd (associatePhoneNumber fetch s p a) = Inl e"
    using failed_call(3) by blast
  note run = run_fail3 [OF assms this]
  show "calls (handleSubmit fetch s) =
      [createAssistant_request s, purchasePhoneNumber_request s,
       associatePhoneNumber_request s p a]"
    "step_of (final_state s (handleSubmit fetch s)) = Error"
    "result_of (final_state s (handleSubmit fetch s)) = None"
    by (simp_all add: run final_state_def)
qed


subsection \<open>Facts about the scenarios\<close>

lemma coffee_valid: "valid_input coffee_state"
  by (simp add: valid_input_def coffee_state_def trim_def is_space_def)

lemma scripted_fetch_simps:
  "scripted_fetch c p a (createAssistant_request s) = c"
  "scripted_fetch c p a (purchasePhoneNumber_request s) = p"
  "scripted_fetch c p a (associatePhoneNumber_request s i j) = a"
  by (simp_all add: scripted_fetch_def createAssistant_request_def
      purchasePhoneNumber_request_def associatePhoneNumber_request_def)

lemma scripted_create:
  "snd (createAssistant (scripted_fetch created_a1 p a) s) = Inr (JStr ''a1'')"
  by (simp add: createAssistant_def scripted_fetch_simps created_a1_def)

lemma scripted_purchase:
  "snd (purchasePhoneNumber (scripted_fetch c purchased_p1 a) s)
     = Inr (JStr ''p1'', JStr ''+14155551234'')"
  by (simp add: purchasePhoneNumber_def scripted_fetch_simps purchased_p1_def)

lemma scripted_associate:
  "snd (associatePhoneNumber (scripted_fetch c p associated_200) s i j) = Inr ()"
  by (simp add: associatePhoneNumber_def scripted_fetch_simps associated_200_def)

lemma server_error_500_failed: "remote_failed server_error_500"
  by (simp add: remote_failed_def server_error_500_def)

theorem failed_call_aborts_witness:
  "valid_input coffee_state
   \<and> remote_failed (create_fails_fetch (createAssistant_request coffee_state))
   \<and> calls (handleSubmit create_fails_fetch coffee_state) = [createAssistant_request coffee_state]
   \<and> step_of (final_state coffee_state (handleSubmit create_fails_fetch coffee_state)) = Error
   \<and> result_of (final_state coffee_state (handleSubmit create_fails_fetch coffee_state)) = None
   \<and> remote_failed (purchase_fails_fetch (purchasePhoneNumber_request coffee_state))
   \<and> calls (handleSubmit purchase_fails_fetch coffee_state)
       = [createAssistant_request coffee_state, purchasePhoneNumber_request coffee_state]
   \<and> step_of (final_state coffee_state (handleSubmit purchase_fails_fetch coffee_state)) = Error
   \<and> result_of (final_state coffee_state (handleSubmit purchase_fails_fetch coffee_state)) = None
   \<and> remote_failed (associate_fails_fetch
        (associatePhoneNumber_request coffee_state (JStr ''p1'') (JStr ''a1'')))
   \<and> calls (handleSubmit associate_fails_fetch coffee_state)
       = [createAssistant_request coffee_state, purchasePhoneNumber_request coffee_state,
          associatePhoneNumber_request coffee_state (JStr ''p1'') (JStr ''a1'')]
   \<and> step_of (final_state coffee_state (handleSubmit associate_fails_fetch coffee_state)) = Error
   \<and> result_of (final_state coffee_state (handleSubmit associate_fails_fetch coffee_state)) = None"
  using failed_call_aborts [OF coffee_valid, of create_fails_fetch]
    failed_call_aborts [OF coffee_valid, of purchase_fails_fetch "JStr ''a1''"]
    failed_call_aborts [OF coffee_valid, of associate_fails_fetch "JStr ''a1''"
      "JStr ''p1''" "JStr ''+14155551234''"]
  by (simp add: coffee_valid create_fails_fetch_def purchase_fails_fetch_def
      associate_fails_fetch_def scripted_fetch_simps scripted_create scripted_purchase
      server_error_500_failed)

text \<open>
  C3. The end-to-end success scenario: description "Answer coffee shop questions", name
  "Coffee Bot", credential "sk_test_123"; create-assistant answers \<open>{id: "a1"}\<close>,
  purchase-number answers \<open>{id: "p1", number: "+14155551234"}\<close>, associate-number
  succeeds. The run ends in \<open>complete\<close> with exactly the result of the specification.
\<close>

theorem coffee_bot_scenario:
  assumes "prompt_of s = ''Answer coffee shop questions''"
    and "agentName_of s = ''Coffee Bot''"
    and "apiKey_of s = ''sk_test_123''"
    and "fetch (createAssistant_request s) = Responded r1"
    and "ok r1" and "json r1 = Inr (JObj [(''id'', JStr ''a1'')])"
    and "fetch (purchasePhoneNumber_request s) = Responded r2"
    and "ok r2"
    and "json r2 = Inr (JObj [(''id'', JStr ''p1''), (''number'', JStr ''+14155551234'')])"
    and "fetch (associatePhoneNumber_request s (JStr ''p1'') (JStr ''a1'')) = Responded r3"
    and "ok r3"
  shows "step_of (final_state s (handleSubmit fetch s)) = Complete
     \<and> result_of (final_state s (handleSubmit fetch s)) =
         Some \<lparr>assistantId = JStr ''a1'', phoneNumberId = JStr ''p1'',
           phoneNumber = JStr ''+14155551234'', agentName = ''Coffee Bot''\<rparr>"
proof -
  have v: "valid_input s"
    using assms(1,3) by (simp add: valid_input_def trim_def is_space_def)
  have c: "snd (createAssistant fetch s) = Inr (JStr ''a1'')"
    using assms(4-6) by (simp add: createAssistant_def)
  have p: "snd (purchasePhoneNumber fetch s) = Inr (JStr ''p1'', JStr ''+14155551234'')"
    using assms(7-9) by (simp add: purchasePhoneNumber_def)
  have a: "snd (associatePhoneNumber fetch s (JStr ''p1'') (JStr ''a1'')) = Inr ()"
    using assms(10,11) by (simp add: associatePhoneNumber_def)
  show ?thesis
    using assms(2) by (simp add: run_success [OF v c p a] final_state_def or_else_def)
qed

theorem coffee_bot_scenario_witness:
  "step_of (final_state coffee_state (handleSubmit coffee_fetch coffee_state)) = Complete
   \<and> result_of (final_state coffee_state (handleSubmit coffee_fetch coffee_state)) =
       Some \<lparr>assistantId = JStr ''a1'', phoneNumberId = JStr ''p1'',
         phoneNumber = JStr ''+14155551234'', agentName = ''Coffee Bot''\<rparr>"
  by (rule coffee_bot_scenario [where ?r1.0 = "\<lparr>ok = True, status = 201, json = Inr (JObj [(''id'', JStr ''a1'')])\<rparr>"
        and ?r2.0 = "\<lparr>ok = True, status = 201,
       json = Inr (JObj [(''id'', JStr ''p1''), (''number'', JStr ''+14155551234'')])\<rparr>"
        and ?r3.0 = "\<lparr>ok = True, status = 200, json = Inl (ThrownError ''Unexpected end of JSON input'')\<rparr>"])
    (simp_all add: coffee_state_def coffee_fetch_def scripted_fetch_simps created_a1_def
      purchased_p1_def associated_200_def)

text \<open>
  C4. When the description or the credential is empty after trimming, the run consists
  of setting the validation message: no remote call is made, and the workflow state
  (and the result) stay as they were.
\<close>

theorem invalid_input_rejected:
  assumes "trim (prompt_of s) = [] \<or> trim (apiKey_of s) = []"
  shows "handleSubmit fetch s = [SetError (Some ''Please fill in all required fields'')]
     \<and> calls (handleSubmit fetch s) = []
     \<and> step_of (final_state s (handleSubmit fetch s)) = step_of s
     \<and> result_of (final_state s (handleSubmit fetch s)) = result_of s
     \<and> error_of (final_state s (handleSubmit fetch s))
         = Some ''Please fill in all required fields''"
proof -
  have "\<not> valid_input s"
    using assms by (auto simp: valid_input_def)
  then show ?thesis
    by (simp add: run_invalid final_state_def)
qed

theorem invalid_input_rejected_witness:
  "trim (prompt_of blank_prompt_state) = []
   \<and> calls (handleSubmit coffee_fetch blank_prompt_state) = []
   \<and> step_of (final_state blank_prompt_state (handleSubmit coffee_fetch blank_prompt_state))
       = Error"
proof -
  have e: "trim (prompt_of blank_prompt_state) = []"
    by (simp add: blank_prompt_state_def trim_def is_space_def)
  then have "trim (prompt_of blank_prompt_state) = [] \<or> trim (apiKey_of blank_prompt_state) = []"
    by (rule disjI1)
  from invalid_input_rejected [OF this, of coffee_fetch]
  have "calls (handleSubmit coffee_fetch blank_prompt_state) = []"
    and "step_of (final_state blank_prompt_state (handleSubmit coffee_fetch blank_prompt_state))
       = step_of blank_prompt_state"
    by blast+
  with e show ?thesis
    by (simp add: blank_prompt_state_def)
qed

subsection \<open>The state after a run\<close>

lemma final_state_append:
  "final_state s (xs @ ys) = final_state (final_state s xs) ys"
  by (simp add: final_state_def)

lemma steps_set_append: "steps_set (xs @ ys) = steps_set xs @ steps_set ys"
  by (induction xs rule: steps_set.induct) simp_all

lemma step_of_final_state:
  "step_of (final_state s evs) = last (step_of s # steps_set evs)"
proof (induction evs arbitrary: s)
  case Nil
  show ?case by (simp add: final_state_def)
next
  case (Cons ev evs)
  have "final_state s (ev # evs) = final_state (apply_event s ev) evs"
    by (simp add: final_state_def)
  with Cons [of "apply_event s ev"] show ?case
    by (cases ev) simp_all
qed

lemma run_final:
  assumes "valid_input s"
  shows "(step_of (final_state s (handleSubmit fetch s)) = Error
          \<and> (\<exists>m. error_of (final_state s (handleSubmit fetch s)) = Some m))
       \<or> (step_of (final_state s (handleSubmit fetch s)) = Complete
          \<and> error_of (final_state s (handleSubmit fetch s)) = None)"
  using assms
proof (cases rule: run_cases [where fetch = fetch])
  case (fail1 e)
  show ?thesis by (simp add: run_fail1 [OF assms fail1] final_state_def)
next
  case (fail2 a e)
  show ?thesis by (simp add: run_fail2 [OF assms fail2] final_state_def)
next
  case (fail3 a p n e)
  show ?thesis by (simp add: run_fail3 [OF assms fail3] final_state_def)
next
  case (success a p n)
  show ?thesis by (simp add: run_success [OF assms success] final_state_def)
qed

lemma run_steps:
  "steps_set (handleSubmit fetch s) \<in>
     {[], [CreatingAssistant, Error], [CreatingAssistant, PurchasingNumber, Error],
      [CreatingAssistant, PurchasingNumber, Associating, Error],
      [CreatingAssistant, PurchasingNumber, Associating, Complete]}"
proof (cases "valid_input s")
  case False
  then show ?thesis by (simp add: run_invalid)
next
  case True
  then show ?thesis
  proof (cases rule: run_cases [where fetch = fetch])
    case (fail1 e)
    show ?thesis by (simp add: run_fail1 [OF True fail1])
  next
    case (fail2 a e)
    show ?thesis by (simp add: run_fail2 [OF True fail2])
  next
    case (fail3 a p n e)
    show ?thesis by (simp add: run_fail3 [OF True fail3])
  next
    case (success a p n)
    show ?thesis by (simp add: run_success [OF True success])
  qed
qed

lemma run_first:
  "valid_input s \<Longrightarrow> take 1 (handleSubmit fetch s) = [SetError None]"
  "valid_input s \<Longrightarrow> take 1 (steps_set (handleSubmit fetch s)) = [CreatingAssistant]"
  "valid_input s \<Longrightarrow> take 1 (calls (handleSubmit fetch s)) = [createAssistant_request s]"
  by (simp_all add: handleSubmit_def valid_input_def try_block_unfold catch_block_def
      split: sum.splits)


subsection \<open>Sessions of the form\<close>

lemma spec_transition_simps:
  "spec_transition Idle CreatingAssistant"
  "spec_transition Error CreatingAssistant"
  "spec_transition CreatingAssistant PurchasingNumber"
  "spec_transition PurchasingNumber Associating"
  "spec_transition Associating Complete"
  "spec_transition CreatingAssistant Error"
  "spec_transition PurchasingNumber Error"
  "spec_transition Associating Error"
  by (simp_all add: spec_transition_def in_progress_def spec_order_def indexOf_def)

lemma successively_glue:
  assumes "successively P (x # xs)" and "successively P (last (x # xs) # ys)"
  shows "successively P (x # xs @ ys)"
proof -
  have "successively P ((x # xs) @ ys)"
    unfolding successively_append_iff
    using assms by (auto simp: successively_Cons)
  then show ?thesis by simp
qed

lemma ui_handle_disabled: "form_disabled s \<Longrightarrow> ui_handle s a = []"
  by (simp add: ui_handle_def)

lemma ui_handle_steps:
  "steps_set (ui_handle s a) \<in>
     {[], [CreatingAssistant, Error], [CreatingAssistant, PurchasingNumber, Error],
      [CreatingAssistant, PurchasingNumber, Associating, Error],
      [CreatingAssistant, PurchasingNumber, Associating, Complete]}"
proof (cases "form_disabled s")
  case True
  then show ?thesis by (simp add: ui_handle_disabled)
next
  case False
  show ?thesis
  proof (cases a)
    case (SubmitForm fetch)
    with False run_steps [of fetch s] show ?thesis
      by (simp add: ui_handle_def)
  qed (use False in \<open>simp_all add: ui_handle_def\<close>)
qed

lemma ui_handle_transitions:
  assumes "step_of s = Idle \<or> step_of s = Error \<or> step_of s = Complete"
  shows "successively spec_transition (step_of s # steps_set (ui_handle s a))"
    and "last (step_of s # steps_set (ui_handle s a)) = Idle
       \<or> last (step_of s # steps_set (ui_handle s a)) = Error
       \<or> last (step_of s # steps_set (ui_handle s a)) = Complete"
proof -
  show "successively spec_transition (step_of s # steps_set (ui_handle s a))"
  proof (cases "form_disabled s")
    case True
    then show ?thesis by (simp add: ui_handle_disabled)
  next
    case False
    then have "step_of s = Idle \<or> step_of s = Error"
      by (simp add: form_disabled_def)
    then show ?thesis
      using ui_handle_steps [of s a] by (auto simp: spec_transition_simps)
  qed
  show "last (step_of s # steps_set (ui_handle s a)) = Idle
       \<or> last (step_of s # steps_set (ui_handle s a)) = Error
       \<or> last (step_of s # steps_set (ui_handle s a)) = Complete"
    using assms ui_handle_steps [of s a] by auto
qed

lemma session_transitions:
  "step_of s = Idle \<or> step_of s = Error \<or> step_of s = Complete \<Longrightarrow>
     successively spec_transition (step_of s # steps_set (session s acts))"
proof (induction acts arbitrary: s)
  case Nil
  show ?case by simp
next
  case (Cons a acts)
  let ?s' = "final_state s (ui_handle s a)"
  have next_step: "step_of ?s' = last (step_of s # steps_set (ui_handle s a))"
    by (rule step_of_final_state)
  with ui_handle_transitions(2) [OF Cons.prems, of a]
  have "step_of ?s' = Idle \<or> step_of ?s' = Error \<or> step_of ?s' = Complete"
    by simp
  then have "successively spec_transition (step_of ?s' # steps_set (session ?s' acts))"
    by (rule Cons.IH)
  with ui_handle_transitions(1) [OF Cons.prems, of a]
  have "successively spec_transition
      (step_of s # steps_set (ui_handle s a) @ steps_set (session ?s' acts))"
    unfolding next_step by (rule successively_glue)
  then show ?case
    by (simp add: steps_set_append)
qed

lemma network_down_call:
  "snd (createAssistant (scripted_fetch network_down o2 o3) s)
     = Inl (ThrownError ''Failed to fetch'')"
  "snd (purchasePhoneNumber (scripted_fetch o1 network_down o3) s)
     = Inl (ThrownError ''Failed to fetch'')"
  "snd (associatePhoneNumber (scripted_fetch o1 o2 network_down) s p a)
     = Inl (ThrownError ''Failed to fetch'')"
  by (simp_all add: createAssistant_def purchasePhoneNumber_def associatePhoneNumber_def
      scripted_fetch_simps network_down_def)

lemma error_from_each_step:
  assumes "valid_input s"
  shows "steps_set (handleSubmit (scripted_fetch network_down o2 o3) s)
      = [CreatingAssistant, Error]"
    and "steps_set (handleSubmit (scripted_fetch created_a1 network_down o3) s)
      = [CreatingAssistant, PurchasingNumber, Error]"
    and "steps_set (handleSubmit (scripted_fetch created_a1 purchased_p1 network_down) s)
      = [CreatingAssistant, PurchasingNumber, Associating, Error]"
  by (simp_all add: run_fail1 [OF assms network_down_call(1)]
      run_fail2 [OF assms scripted_create network_down_call(2)]
      run_fail3 [OF assms scripted_create scripted_purchase network_down_call(3)])

text \<open>
  C9. Through any session of the form (typing and submitting in any order, against any
  remote end), every change of the workflow state is a transition the specification
  allows: strictly forward in the order idle, creating-assistant, purchasing-number,
  associating, complete; or to error from an in-progress state; or from error to
  creating-assistant. A valid submit in state error starts from the beginning: its
  first step is creating-assistant and its first call is create-assistant. And error
  is reached from each in-progress state: by a run whose first, second or third call
  meets a network failure.
\<close>

theorem transitions_forward:
  "successively spec_transition (Idle # steps_set (session initial_state acts))
   \<and> (step_of s = Error \<and> valid_input s \<longrightarrow>
        take 1 (steps_set (handleSubmit fetch s)) = [CreatingAssistant]
        \<and> take 1 (calls (handleSubmit fetch s)) = [createAssistant_request s])
   \<and> (valid_input s \<longrightarrow>
        steps_set (handleSubmit (scripted_fetch network_down o2 o3) s)
          = [CreatingAssistant, Error]
        \<and> steps_set (handleSubmit (scripted_fetch created_a1 network_down o3) s)
          = [CreatingAssistant, PurchasingNumber, Error]
        \<and> steps_set (handleSubmit (scripted_fetch created_a1 purchased_p1 network_down) s)
          = [CreatingAssistant, PurchasingNumber, Associating, Error])"
proof -
  have "step_of initial_state = Idle"
    by (simp add: initial_state_def)
  with session_transitions [of initial_state acts]
  have "successively spec_transition (Idle # steps_set (session initial_state acts))"
    by simp
  with run_first(2,3) [of s fetch] show ?thesis
    by (simp add: error_from_each_step)
qed

lemma ui_handle_error_set:
  assumes "step_of s = Error \<longrightarrow> error_of s \<noteq> None"
  shows "step_of (final_state s (ui_handle s a)) = Error \<longrightarrow>
     error_of (final_state s (ui_handle s a)) \<noteq> None"
proof (cases "form_disabled s")
  case True
  with assms show ?thesis by (simp add: ui_handle_disabled final_state_def)
next
  case False
  show ?thesis
  proof (cases a)
    case (SubmitForm fetch)
    show ?thesis
    proof (cases "valid_input s")
      case True
      with run_final [of s fetch] False SubmitForm show ?thesis
        by (auto simp: ui_handle_def)
    next
      case invalid: False
      with False SubmitForm show ?thesis
        by (simp add: ui_handle_def run_invalid final_state_def)
    qed
  qed (use False assms in \<open>simp_all add: ui_handle_def final_state_def\<close>)
qed

lemma session_error_set:
  "(step_of s = Error \<longrightarrow> error_of s \<noteq> None) \<Longrightarrow>
     step_of (final_state s (session s acts)) = Error \<longrightarrow>
       error_of (final_state s (session s acts)) \<noteq> None"
proof (induction acts arbitrary: s)
  case Nil
  then show ?case by (simp add: final_state_def)
next
  case (Cons a acts)
  from ui_handle_error_set [OF Cons.prems, of a] show ?case
    by (simp add: final_state_append Cons.IH)
qed

text \<open>
  C5, as amended. In every state the form reaches, a workflow state \<open>error\<close> comes with
  an error message. A submit that passes validation first clears the message, and ends
  with a message exactly when it ends in \<open>error\<close>. A submit that fails validation sets
  the validation message and leaves the workflow state as it was.
\<close>

theorem error_message_when_error:
  "(step_of (final_state initial_state (session initial_state acts)) = Error \<longrightarrow>
      error_of (final_state initial_state (session initial_state acts)) \<noteq> None)
   \<and> (valid_input s \<longrightarrow>
        take 1 (handleSubmit fetch s) = [SetError None]
        \<and> (error_of (final_state s (handleSubmit fetch s)) \<noteq> None
             \<longleftrightarrow> step_of (final_state s (handleSubmit fetch s)) = Error))
   \<and> (\<not> valid_input s \<longrightarrow>
        error_of (final_state s (handleSubmit fetch s))
          = Some ''Please fill in all required fields''
        \<and> step_of (final_state s (handleSubmit fetch s)) = step_of s)"
proof (intro conjI impI)
  have "step_of initial_state = Error \<longrightarrow> error_of initial_state \<noteq> None"
    by (simp add: initial_state_def)
  then have "step_of (final_state initial_state (session initial_state acts)) = Error \<longrightarrow>
      error_of (final_state initial_state (session initial_state acts)) \<noteq> None"
    by (rule session_error_set)
  moreover assume "step_of (final_state initial_state (session initial_state acts)) = Error"
  ultimately show "error_of (final_state initial_state (session initial_state acts)) \<noteq> None"
    by simp
next
  assume "valid_input s"
  then show "take 1 (handleSubmit fetch s) = [SetError None]"
    by (rule run_first)
next
  assume "valid_input s"
  from run_final [OF this, of fetch]
  show "error_of (final_state s (handleSubmit fetch s)) \<noteq> None
     \<longleftrightarrow> step_of (final_state s (handleSubmit fetch s)) = Error"
    by auto
next
  assume "\<not> valid_input s"
  then show "error_of (final_state s (handleSubmit fetch s))
      = Some ''Please fill in all required fields''"
    and "step_of (final_state s (handleSubmit fetch s)) = step_of s"
    by (simp_all add: run_invalid final_state_def)
qed

text \<open>
  C5 as stated fails: submitting the empty form sets the validation message while the
  workflow state stays \<open>idle\<close>, so a message does not imply the state \<open>error\<close>.
\<close>

theorem error_message_iff_error_counterexample:
  "\<not> (error_of (final_state initial_state (handleSubmit coffee_fetch initial_state)) \<noteq> None
       \<longleftrightarrow> step_of (final_state initial_state (handleSubmit coffee_fetch initial_state)) = Error)"
proof -
  have "\<not> valid_input initial_state"
    by (simp add: valid_input_def initial_state_def trim_def)
  then have "handleSubmit coffee_fetch initial_state
      = [SetError (Some ''Please fill in all required fields'')]"
    by (rule run_invalid)
  then show ?thesis
    by (simp add: final_state_def initial_state_def)
qed


subsection \<open>Evaluating the scenarios\<close>

lemma filled_in_form:
  "final_state initial_state (session initial_state fill_in_form) = coffee_state"
  by (simp add: fill_in_form_def initial_state_def coffee_state_def ui_handle_def
      form_disabled_def final_state_def)

lemma session_fill_in_form:
  "session initial_state (fill_in_form @ acts)
     = session initial_state fill_in_form @ session coffee_state acts"
  by (simp add: fill_in_form_def initial_state_def coffee_state_def ui_handle_def
      form_disabled_def final_state_def)

lemma steps_fill_in_form: "steps_set (session initial_state fill_in_form) = []"
  by (simp add: fill_in_form_def initial_state_def ui_handle_def
      form_disabled_def final_state_def)

lemma coffee_create_fails:
  "handleSubmit create_fails_fetch coffee_state =
     [SetError None, SetResult None,
      SetStep CreatingAssistant, Fetch (createAssistant_request coffee_state),
      SetStep Error, SetError (Some ''Failed to create assistant: 500'')]"
proof -
  have "snd (createAssistant create_fails_fetch coffee_state)
      = Inl (ThrownError (''Failed to create assistant: '' @ show_nat 500))"
    by (simp add: createAssistant_def create_fails_fetch_def scripted_fetch_simps
        server_error_500_def failure_def error_data_def)
  moreover have "show_nat 500 = ''500''"
    by (simp add: show_nat.simps)
  ultimately show ?thesis
    by (simp add: run_fail1 [OF coffee_valid] catch_message_def)
qed

lemma coffee_success:
  "handleSubmit coffee_fetch s =
     (if valid_input s then
       [SetError None, SetResult None,
        SetStep CreatingAssistant, Fetch (createAssistant_request s),
        SetStep PurchasingNumber, Fetch (purchasePhoneNumber_request s),
        SetStep Associating,
        Fetch (associatePhoneNumber_request s (JStr ''p1'') (JStr ''a1'')),
        SetStep Complete,
        SetResult (Some \<lparr>assistantId = JStr ''a1'', phoneNumberId = JStr ''p1'',
          phoneNumber = JStr ''+14155551234'',
          agentName = or_else (agentName_of s) ''VAPI Agent''\<rparr>)]
      else [SetError (Some ''Please fill in all required fields'')])"
  by (simp add: run_invalid coffee_fetch_def
      run_success [OF _ scripted_create scripted_purchase scripted_associate])

lemma retry_valid: "valid_input retry_state"
  by (simp add: valid_input_def retry_state_def trim_def is_space_def)

lemma scenario_steps:
  "step_of coffee_state = Idle"
  "step_of retry_state = Error"
  "step_of blank_prompt_state = Error"
  by (simp_all add: coffee_state_def retry_state_def blank_prompt_state_def)

theorem transitions_forward_witness:
  "successively spec_transition (Idle # steps_set (session initial_state
       (fill_in_form @ [SubmitForm create_fails_fetch, SubmitForm coffee_fetch,
          SubmitForm coffee_fetch])))
   \<and> steps_set (session initial_state
       (fill_in_form @ [SubmitForm create_fails_fetch, SubmitForm coffee_fetch,
          SubmitForm coffee_fetch]))
       = [CreatingAssistant, Error, CreatingAssistant, PurchasingNumber, Associating, Complete]
   \<and> step_of retry_state = Error \<and> valid_input retry_state
   \<and> take 1 (steps_set (handleSubmit coffee_fetch retry_state)) = [CreatingAssistant]
   \<and> take 1 (calls (handleSubmit coffee_fetch retry_state)) = [createAssistant_request retry_state]
   \<and> steps_set (handleSubmit (scripted_fetch created_a1 network_down associated_200) retry_state)
       = [CreatingAssistant, PurchasingNumber, Error]"
proof -
  let ?acts = "fill_in_form @ [SubmitForm create_fails_fetch, SubmitForm coffee_fetch,
          SubmitForm coffee_fetch]"
  have after_failure: "final_state coffee_state (handleSubmit create_fails_fetch coffee_state)
      = retry_state"
    by (simp add: coffee_create_fails final_state_def)
      (simp add: coffee_state_def retry_state_def)
  let ?last = "final_state retry_state (handleSubmit coffee_fetch retry_state)"
  have finished: "step_of ?last = Complete"
    by (simp add: coffee_success retry_valid final_state_def)
  have run3: "session ?last [SubmitForm coffee_fetch] = []"
    by (simp add: ui_handle_def form_disabled_def finished)
  have run2: "session retry_state [SubmitForm coffee_fetch, SubmitForm coffee_fetch]
      = handleSubmit coffee_fetch retry_state"
    using run3 by (simp add: ui_handle_def form_disabled_def scenario_steps)
  have run1: "session coffee_state
      [SubmitForm create_fails_fetch, SubmitForm coffee_fetch, SubmitForm coffee_fetch]
      = handleSubmit create_fails_fetch coffee_state @ handleSubmit coffee_fetch retry_state"
    using run2 by (simp add: ui_handle_def form_disabled_def scenario_steps after_failure)
  have "steps_set (session initial_state ?acts)
      = [CreatingAssistant, Error, CreatingAssistant, PurchasingNumber, Associating, Complete]"
    unfolding session_fill_in_form run1
    by (simp add: steps_set_append steps_fill_in_form coffee_create_fails coffee_success
        retry_valid)
  then show ?thesis
    using transitions_forward [of ?acts retry_state coffee_fetch associated_200 associated_200] retry_valid
    by (simp add: scenario_steps)
qed


theorem error_message_when_error_witness:
  "step_of (final_state initial_state (session initial_state
       (fill_in_form @ [SubmitForm create_fails_fetch]))) = Error
   \<and> error_of (final_state initial_state (session initial_state
       (fill_in_form @ [SubmitForm create_fails_fetch]))) \<noteq> None
   \<and> valid_input coffee_state
   \<and> take 1 (handleSubmit coffee_fetch coffee_state) = [SetError None]
   \<and> error_of (final_state coffee_state (handleSubmit coffee_fetch coffee_state)) = None
   \<and> step_of (final_state coffee_state (handleSubmit coffee_fetch coffee_state)) = Complete
   \<and> \<not> valid_input blank_prompt_state
   \<and> error_of (final_state blank_prompt_state (handleSubmit coffee_fetch blank_prompt_state))
       = Some ''Please fill in all required fields''
   \<and> step_of (final_state blank_prompt_state (handleSubmit coffee_fetch blank_prompt_state))
       = Error"
proof -
  let ?acts = "fill_in_form @ [SubmitForm create_fails_fetch]"
  have "session initial_state ?acts
      = session initial_state fill_in_form @ handleSubmit create_fails_fetch coffee_state"
    unfolding session_fill_in_form
    by (simp add: ui_handle_def form_disabled_def scenario_steps)
  then have "step_of (final_state initial_state (session initial_state ?acts)) = Error"
    by (simp add: step_of_final_state steps_set_append steps_fill_in_form coffee_create_fails)
  moreover have "\<not> valid_input blank_prompt_state"
    by (simp add: valid_input_def blank_prompt_state_def trim_def is_space_def)
  moreover have "step_of (final_state coffee_state (handleSubmit coffee_fetch coffee_state))
      = Complete"
    by (simp add: coffee_success coffee_valid final_state_def)
  ultimately show ?thesis
    using error_message_when_error [of ?acts coffee_state coffee_fetch]
      error_message_when_error [of ?acts blank_prompt_state coffee_fetch]
    by (simp add: coffee_valid scenario_steps)
qed

subsection \<open>The message of a failed call\<close>

lemma failure_server_message:
  "server_message r = Some m \<Longrightarrow> failure label r = ThrownError m"
  by (auto simp: server_message_def failure_def error_data_def
      split: sum.splits jsval.splits option.splits if_splits)

lemma failure_no_message:
  "no_message r \<Longrightarrow> failure label r = ThrownError (label @ show_nat (status r))"
  by (auto simp: no_message_def failure_def error_data_def
      split: sum.splits jsval.splits option.splits if_splits)

lemma not_ok_call:
  "fetch (createAssistant_request s) = Responded r \<Longrightarrow> \<not> ok r \<Longrightarrow>
     snd (createAssistant fetch s) = Inl (failure ''Failed to create assistant: '' r)"
  "fetch (purchasePhoneNumber_request s) = Responded r \<Longrightarrow> \<not> ok r \<Longrightarrow>
     snd (purchasePhoneNumber fetch s) = Inl (failure ''Failed to purchase phone number: '' r)"
  "fetch (associatePhoneNumber_request s p a) = Responded r \<Longrightarrow> \<not> ok r \<Longrightarrow>
     snd (associatePhoneNumber fetch s p a)
       = Inl (failure ''Failed to associate phone number: '' r)"
  by (simp_all add: createAssistant_def purchasePhoneNumber_def associatePhoneNumber_def)

lemma thrown_final:
  "valid_input s \<Longrightarrow> snd (createAssistant fetch s) = Inl e \<Longrightarrow>
     step_of (final_state s (handleSubmit fetch s)) = Error
     \<and> error_of (final_state s (handleSubmit fetch s)) = Some (catch_message e)"
  "valid_input s \<Longrightarrow> snd (createAssistant fetch s) = Inr a \<Longrightarrow>
   snd (purchasePhoneNumber fetch s) = Inl e \<Longrightarrow>
     step_of (final_state s (handleSubmit fetch s)) = Error
     \<and> error_of (final_state s (handleSubmit fetch s)) = Some (catch_message e)"
  "valid_input s \<Longrightarrow> snd (createAssistant fetch s) = Inr a \<Longrightarrow>
   snd (purchasePhoneNumber fetch s) = Inr (p, n) \<Longrightarrow>
   snd (associatePhoneNumber fetch s p a) = Inl e \<Longrightarrow>
     step_of (final_state s (handleSubmit fetch s)) = Error
     \<and> error_of (final_state s (handleSubmit fetch s)) = Some (catch_message e)"
  by (simp_all add: run_fail1 run_fail2 run_fail3 final_state_def)

text \<open>
  C6, as amended. When a call of a valid run is answered with a response that is not ok:
  if the body is a JSON object whose \<open>message\<close> is a non-empty string, the error message
  is that string; if the body does not parse, or parses to a value other than \<open>null\<close>
  with no \<open>message\<close> or a falsy one, the error message is the fixed text of the call
  followed by the status code in decimal.
\<close>

theorem remote_error_message:
  assumes "valid_input s" and "\<not> ok r"
  shows "(fetch (createAssistant_request s) = Responded r \<longrightarrow>
            (server_message r = Some m \<longrightarrow>
               error_of (final_state s (handleSubmit fetch s)) = Some m)
            \<and> (no_message r \<longrightarrow>
               error_of (final_state s (handleSubmit fetch s))
                 = Some (''Failed to create assistant: '' @ show_nat (status r))))
       \<and> (snd (createAssistant fetch s) = Inr a
            \<and> fetch (purchasePhoneNumber_request s) = Responded r \<longrightarrow>
            (server_message r = Some m \<longrightarrow>
               error_of (final_state s (handleSubmit fetch s)) = Some m)
            \<and> (no_message r \<longrightarrow>
               error_of (final_state s (handleSubmit fetch s))
                 = Some (''Failed to purchase phone number: '' @ show_nat (status r))))
       \<and> (snd (createAssistant fetch s) = Inr a
            \<and> snd (purchasePhoneNumber fetch s) = Inr (p, n)
            \<and> fetch (associatePhoneNumber_request s p a) = Responded r \<longrightarrow>
            (server_message r = Some m \<longrightarrow>
               error_of (final_state s (handleSubmit fetch s)) = Some m)
            \<and> (no_message r \<longrightarrow>
               error_of (final_state s (handleSubmit fetch s))
                 = Some (''Failed to associate phone number: '' @ show_nat (status r))))"
proof (intro conjI impI)
  assume r: "fetch (createAssistant_request s) = Responded r"
  note final = thrown_final(1) [OF assms(1) not_ok_call(1) [of fetch s r, OF r assms(2)]]
  show "error_of (final_state s (handleSubmit fetch s)) = Some m"
    if "server_message r = Some m"
    using final that by (simp add: failure_server_message catch_message_def)
  show "error_of (final_state s (handleSubmit fetch s))
      = Some (''Failed to create assistant: '' @ show_nat (status r))"
    if "no_message r"
    using final that by (simp add: failure_no_message catch_message_def)
next
  assume "snd (createAssistant fetch s) = Inr a
    \<and> fetch (purchasePhoneNumber_request s) = Responded r"
  then have c: "snd (createAssistant fetch s) = Inr a"
    and r: "fetch (purchasePhoneNumber_request s) = Responded r"
    by simp_all
  note final = thrown_final(2) [OF assms(1) c not_ok_call(2) [of fetch s r, OF r assms(2)]]
  show "error_of (final_state s (handleSubmit fetch s)) = Some m"
    if "server_message r = Some m"
    using final that by (simp add: failure_server_message catch_message_def)
  show "error_of (final_state s (handleSubmit fetch s))
      = Some (''Failed to purchase phone number: '' @ show_nat (status r))"
    if "no_message r"
    using final that by (simp add: failure_no_message catch_message_def)
next
  assume "snd (createAssistant fetch s) = Inr a
    \<and> snd (purchasePhoneNumber fetch s) = Inr (p, n)
    \<and> fetch (associatePhoneNumber_request s p a) = Responded r"
  then have c: "snd (createAssistant fetch s) = Inr a"
    and b: "snd (purchasePhoneNumber fetch s) = Inr (p, n)"
    and r: "fetch (associatePhoneNumber_request s p a) = Responded r"
    by simp_all
  note final = thrown_final(3) [OF assms(1) c b not_ok_call(3) [of fetch s p a r, OF r assms(2)]]
  show "error_of (final_state s (handleSubmit fetch s)) = Some m"
    if "server_message r = Some m"
    using final that by (simp add: failure_server_message catch_message_def)
  show "error_of (final_state s (handleSubmit fetch s))
      = Some (''Failed to associate phone number: '' @ show_nat (status r))"
    if "no_message r"
    using final that by (simp add: failure_no_message catch_message_def)
qed

subsection \<open>The message of a failed call, on the scenarios\<close>

lemma show_nat_status: "show_nat 429 = ''429''" "show_nat 500 = ''500''"
  by (simp_all add: show_nat.simps)

lemma scenario_responses:
  "\<not> ok r429" "server_message r429 = Some ''quota exceeded''" "status r429 = 429"
  "\<not> ok r500" "no_message r500" "status r500 = 500"
  if "quota_exceeded_429 = Responded r429" and "server_error_500 = Responded r500"
  using that
  by (auto simp: quota_exceeded_429_def server_error_500_def server_message_def no_message_def)

theorem remote_error_message_witness:
  "error_of (final_state coffee_state
      (handleSubmit (scripted_fetch quota_exceeded_429 purchased_p1 associated_200) coffee_state))
     = Some ''quota exceeded''
   \<and> error_of (final_state coffee_state
      (handleSubmit (scripted_fetch server_error_500 purchased_p1 associated_200) coffee_state))
     = Some ''Failed to create assistant: 500''
   \<and> error_of (final_state coffee_state
      (handleSubmit (scripted_fetch created_a1 quota_exceeded_429 associated_200) coffee_state))
     = Some ''quota exceeded''
   \<and> error_of (final_state coffee_state
      (handleSubmit (scripted_fetch created_a1 server_error_500 associated_200) coffee_state))
     = Some ''Failed to purchase phone number: 500''
   \<and> error_of (final_state coffee_state
      (handleSubmit (scripted_fetch created_a1 purchased_p1 quota_exceeded_429) coffee_state))
     = Some ''quota exceeded''
   \<and> error_of (final_state coffee_state
      (handleSubmit (scripted_fetch created_a1 purchased_p1 server_error_500) coffee_state))
     = Some ''Failed to associate phone number: 500''"
proof -
  obtain r429 r500 where r: "quota_exceeded_429 = Responded r429"
      "server_error_500 = Responded r500"
    by (simp add: quota_exceeded_429_def server_error_500_def)
  note facts = scenario_responses [OF r]
  show ?thesis
    using remote_error_message [OF coffee_valid facts(1),
        of "scripted_fetch quota_exceeded_429 purchased_p1 associated_200" "''quota exceeded''"]
      remote_error_message [OF coffee_valid facts(4),
        of "scripted_fetch server_error_500 purchased_p1 associated_200"]
      remote_error_message [OF coffee_valid facts(1),
        of "scripted_fetch created_a1 quota_exceeded_429 associated_200" "''quota exceeded''"
          "JStr ''a1''"]
      remote_error_message [OF coffee_valid facts(4),
        of "scripted_fetch created_a1 server_error_500 associated_200" _ "JStr ''a1''"]
      remote_error_message [OF coffee_valid facts(1),
        of "scripted_fetch created_a1 purchased_p1 quota_exceeded_429" "''quota exceeded''"
          "JStr ''a1''" "JStr ''p1''" "JStr ''+14155551234''"]
      remote_error_message [OF coffee_valid facts(4),
        of "scripted_fetch created_a1 purchased_p1 server_error_500" _
          "JStr ''a1''" "JStr ''p1''" "JStr ''+14155551234''"]
    by (simp add: scripted_fetch_simps scripted_create scripted_purchase r [symmetric] facts
        show_nat_status)
qed

text \<open>
  C6 as stated fails: a body \<open>{message: ""}\<close> contains a message field, yet the error
  message is the fixed text with the status code, since the empty string is falsy.
\<close>

theorem server_message_counterexample:
  "get_prop (JObj [(''message'', JStr [])]) ''message'' = Inr (JStr [])
   \<and> error_of (final_state coffee_state
        (handleSubmit (scripted_fetch empty_message_429 purchased_p1 associated_200) coffee_state))
       = Some ''Failed to create assistant: 429''
   \<and> error_of (final_state coffee_state
        (handleSubmit (scripted_fetch empty_message_429 purchased_p1 associated_200) coffee_state))
       \<noteq> Some []"
proof -
  have "snd (createAssistant (scripted_fetch empty_message_429 purchased_p1 associated_200)
      coffee_state) = Inl (ThrownError ''Failed to create assistant: 429'')"
    by (simp add: createAssistant_def scripted_fetch_simps empty_message_429_def failure_def
        error_data_def show_nat_status)
  from thrown_final(1) [OF coffee_valid this] show ?thesis
    by (simp add: catch_message_def)
qed


subsection \<open>Failures that are not responses\<close>

lemma non_http_call:
  "network_failure (fetch (createAssistant_request s)) = Some e
     \<or> malformed_response (fetch (createAssistant_request s)) = Some e \<Longrightarrow>
     snd (createAssistant fetch s) = Inl e"
  "network_failure (fetch (purchasePhoneNumber_request s)) = Some e
     \<or> malformed_response (fetch (purchasePhoneNumber_request s)) = Some e \<Longrightarrow>
     snd (purchasePhoneNumber fetch s) = Inl e"
  "network_failure (fetch (associatePhoneNumber_request s p a)) = Some e \<Longrightarrow>
     snd (associatePhoneNumber fetch s p a) = Inl e"
  by (auto simp: network_failure_def malformed_response_def createAssistant_def
      purchasePhoneNumber_def associatePhoneNumber_def
      split: fetch_outcome.splits sum.splits if_splits)

text \<open>
  C8, as amended. When a call of a valid run fails without a failing status (\<open>fetch\<close>
  rejects, or the body of an ok response that the call reads does not parse), the run
  ends in \<open>error\<close>, and the error message is the message of the thrown \<open>Error\<close>; it is the
  generic "An unexpected error occurred" only when the thrown value is not an \<open>Error\<close>.
\<close>

theorem non_http_failure_message:
  assumes "valid_input s"
  shows "(network_failure (fetch (createAssistant_request s)) = Some e
            \<or> malformed_response (fetch (createAssistant_request s)) = Some e \<longrightarrow>
          step_of (final_state s (handleSubmit fetch s)) = Error
          \<and> error_of (final_state s (handleSubmit fetch s))
              = Some (case e of ThrownError m \<Rightarrow> m
                      | ThrownOther \<Rightarrow> ''An unexpected error occurred''))
       \<and> (snd (createAssistant fetch s) = Inr a
            \<and> (network_failure (fetch (purchasePhoneNumber_request s)) = Some e
                 \<or> malformed_response (fetch (purchasePhoneNumber_request s)) = Some e) \<longrightarrow>
          step_of (final_state s (handleSubmit fetch s)) = Error
          \<and> error_of (final_state s (handleSubmit fetch s))
              = Some (case e of ThrownError m \<Rightarrow> m
                      | ThrownOther \<Rightarrow> ''An unexpected error occurred''))
       \<and> (snd (createAssistant fetch s) = Inr a
            \<and> snd (purchasePhoneNumber fetch s) = Inr (p, n)
            \<and> network_failure (fetch (associatePhoneNumber_request s p a)) = Some e \<longrightarrow>
          step_of (final_state s (handleSubmit fetch s)) = Error
          \<and> error_of (final_state s (handleSubmit fetch s))
              = Some (case e of ThrownError m \<Rightarrow> m
                      | ThrownOther \<Rightarrow> ''An unexpected error occurred''))"
proof (intro conjI impI)
  assume "network_failure (fetch (createAssistant_request s)) = Some e
    \<or> malformed_response (fetch (createAssistant_request s)) = Some e"
  then have "snd (createAssistant fetch s) = Inl e"
    by (rule non_http_call)
  from thrown_final(1) [OF assms this]
  show "step_of (final_state s (handleSubmit fetch s)) = Error"
    and "error_of (final_state s (handleSubmit fetch s))
      = Some (case e of ThrownError m \<Rightarrow> m | ThrownOther \<Rightarrow> ''An unexpected error occurred'')"
    by (simp_all add: catch_message_def)
next
  assume "snd (createAssistant fetch s) = Inr a
    \<and> (network_failure (fetch (purchasePhoneNumber_request s)) = Some e
         \<or> malformed_response (fetch (purchasePhoneNumber_request s)) = Some e)"
  then have "snd (createAssistant fetch s) = Inr a"
    and "snd (purchasePhoneNumber fetch s) = Inl e"
    by (simp_all add: non_http_call)
  from thrown_final(2) [OF assms this]
  show "step_of (final_state s (handleSubmit fetch s)) = Error"
    and "error_of (final_state s (handleSubmit fetch s))
      = Some (case e of ThrownError m \<Rightarrow> m | ThrownOther \<Rightarrow> ''An unexpected error occurred'')"
    by (simp_all add: catch_message_def)
next
  assume "snd (createAssistant fetch s) = Inr a
    \<and> snd (purchasePhoneNumber fetch s) = Inr (p, n)
    \<and> network_failure (fetch (associatePhoneNumber_request s p a)) = Some e"
  then have "snd (createAssistant fetch s) = Inr a"
    and "snd (purchasePhoneNumber fetch s) = Inr (p, n)"
    and "snd (associatePhoneNumber fetch s p a) = Inl e"
    by (simp_all add: non_http_call)
  from thrown_final(3) [OF assms this]
  show "step_of (final_state s (handleSubmit fetch s)) = Error"
    and "error_of (final_state s (handleSubmit fetch s))
      = Some (case e of ThrownError m \<Rightarrow> m | ThrownOther \<Rightarrow> ''An unexpected error occurred'')"
    by (simp_all add: catch_message_def)
qed

lemma scenario_failures:
  "network_failure network_down = Some (ThrownError ''Failed to fetch'')"
  "network_failure other_throw = Some ThrownOther"
  "malformed_response unparseable_200
     = Some (ThrownError ''Unexpected token < in JSON at position 0'')"
  by (simp_all add: network_failure_def malformed_response_def network_down_def
      other_throw_def unparseable_200_def)

theorem non_http_failure_message_witness:
  "valid_input coffee_state
   \<and> network_failure (offline_fetch (createAssistant_request coffee_state))
       = Some (ThrownError ''Failed to fetch'')
   \<and> step_of (final_state coffee_state (handleSubmit offline_fetch coffee_state)) = Error
   \<and> error_of (final_state coffee_state (handleSubmit offline_fetch coffee_state))
       = Some ''Failed to fetch''
   \<and> error_of (final_state coffee_state
        (handleSubmit (scripted_fetch other_throw purchased_p1 associated_200) coffee_state))
       = Some ''An unexpected error occurred''
   \<and> error_of (final_state coffee_state
        (handleSubmit (scripted_fetch created_a1 unparseable_200 associated_200) coffee_state))
       = Some ''Unexpected token < in JSON at position 0''
   \<and> step_of (final_state coffee_state
        (handleSubmit (scripted_fetch created_a1 purchased_p1 network_down) coffee_state))
       = Error
   \<and> error_of (final_state coffee_state
        (handleSubmit (scripted_fetch created_a1 purchased_p1 network_down) coffee_state))
       = Some ''Failed to fetch''"
  using non_http_failure_message [OF coffee_valid, of offline_fetch "ThrownError ''Failed to fetch''"]
    non_http_failure_message [OF coffee_valid,
      of "scripted_fetch other_throw purchased_p1 associated_200" ThrownOther]
    non_http_failure_message [OF coffee_valid,
      of "scripted_fetch created_a1 unparseable_200 associated_200"
        "ThrownError ''Unexpected token < in JSON at position 0''" "JStr ''a1''"]
    non_http_failure_message [OF coffee_valid,
      of "scripted_fetch created_a1 purchased_p1 network_down"
        "ThrownError ''Failed to fetch''" "JStr ''a1''" "JStr ''p1''" "JStr ''+14155551234''"]
  by (simp add: coffee_valid offline_fetch_def scripted_fetch_simps scripted_create
      scripted_purchase scenario_failures)

text \<open>
  C8 as stated fails: when the network is down \<open>fetch\<close> rejects with an \<open>Error\<close>, and the
  error message is that error's own message, not the generic one.
\<close>

theorem unexpected_error_counterexample:
  "network_failure (offline_fetch (createAssistant_request coffee_state))
     = Some (ThrownError ''Failed to fetch'')
   \<and> step_of (final_state coffee_state (handleSubmit offline_fetch coffee_state)) = Error
   \<and> error_of (final_state coffee_state (handleSubmit offline_fetch coffee_state))
       = Some ''Failed to fetch''
   \<and> error_of (final_state coffee_state (handleSubmit offline_fetch coffee_state))
       \<noteq> Some ''An unexpected error occurred''"
proof -
  have "snd (createAssistant offline_fetch coffee_state) = Inl (ThrownError ''Failed to fetch'')"
    by (simp add: createAssistant_def offline_fetch_def scripted_fetch_simps network_down_def)
  from thrown_final(1) [OF coffee_valid this] show ?thesis
    by (simp add: catch_message_def offline_fetch_def scripted_fetch_simps scenario_failures)
qed

subsection \<open>The fallback names\<close>

lemma nameless_valid: "valid_input nameless_state"
  by (simp add: valid_input_def nameless_state_def trim_def is_space_def)

text \<open>
  C7, as amended. With the display name left empty, a successful run gives the result
  the agent name "VAPI Agent", which is also the name sent to create-assistant; the
  greeting sent is "Hello! I'm your AI assistant. How can I help you today?"; the name
  sent to purchase-number is "VAPI Agent Number"; and the model configuration, with the
  system prompt built from the description alone, is the same for every display name.
\<close>

theorem fallback_names:
  assumes "agentName_of s = []" and "valid_input s"
    and "snd (createAssistant fetch s) = Inr a"
    and "snd (purchasePhoneNumber fetch s) = Inr (p, n)"
    and "snd (associatePhoneNumber fetch s p a) = Inr ()"
  shows "result_of (final_state s (handleSubmit fetch s))
      = Some \<lparr>assistantId = a, phoneNumberId = p, phoneNumber = n, agentName = ''VAPI Agent''\<rparr>
    \<and> get_prop (body (createAssistant_request s)) ''name'' = Inr (JStr ''VAPI Agent'')
    \<and> get_prop (body (createAssistant_request s)) ''firstMessage''
        = Inr (JStr (''Hello! I'' @ [CHR 0x27] @ ''m your AI assistant. How can I help you today?''))
    \<and> get_prop (body (purchasePhoneNumber_request s)) ''name'' = Inr (JStr ''VAPI Agent Number'')
    \<and> get_prop (body (createAssistant_request s)) ''model''
        = Inr (JObj
            [(''provider'', JStr ''openai''),
             (''model'', JStr ''gpt-4o''),
             (''messages'', JArr
                [JObj [(''role'', JStr ''system''),
                       (''content'', JStr (generateSystemPrompt (prompt_of s)))]])])
    \<and> get_prop (body (createAssistant_request (s\<lparr>agentName_of := anyname\<rparr>))) ''model''
        = get_prop (body (createAssistant_request s)) ''model''"
proof -
  have "result_of (final_state s (handleSubmit fetch s))
      = Some \<lparr>assistantId = a, phoneNumberId = p, phoneNumber = n, agentName = ''VAPI Agent''\<rparr>"
    using assms(1) by (simp add: run_success [OF assms(2-5)] final_state_def or_else_def)
  moreover have "get_prop (body (createAssistant_request s)) ''name'' = Inr (JStr ''VAPI Agent'')"
    "get_prop (body (createAssistant_request s)) ''firstMessage''
        = Inr (JStr (''Hello! I'' @ [CHR 0x27] @ ''m your AI assistant. How can I help you today?''))"
    "get_prop (body (purchasePhoneNumber_request s)) ''name'' = Inr (JStr ''VAPI Agent Number'')"
    using assms(1)
    by (simp_all add: createAssistant_request_def purchasePhoneNumber_request_def
        first_message_def or_else_def)
  moreover have "get_prop (body (createAssistant_request t)) ''model''
        = Inr (JObj
            [(''provider'', JStr ''openai''),
             (''model'', JStr ''gpt-4o''),
             (''messages'', JArr
                [JObj [(''role'', JStr ''system''),
                       (''content'', JStr (generateSystemPrompt (prompt_of t)))]])])" for t
    by (simp add: createAssistant_request_def)
  ultimately show ?thesis
    by simp
qed

theorem fallback_names_witness:
  "agentName_of nameless_state = [] \<and> valid_input nameless_state
   \<and> result_of (final_state nameless_state (handleSubmit coffee_fetch nameless_state))
      = Some \<lparr>assistantId = JStr ''a1'', phoneNumberId = JStr ''p1'',
          phoneNumber = JStr ''+14155551234'', agentName = ''VAPI Agent''\<rparr>
   \<and> get_prop (body (createAssistant_request nameless_state)) ''firstMessage''
        = Inr (JStr (''Hello! I'' @ [CHR 0x27] @ ''m your AI assistant. How can I help you today?''))
   \<and> get_prop (body (purchasePhoneNumber_request nameless_state)) ''name''
        = Inr (JStr ''VAPI Agent Number'')"
proof -
  have n: "agentName_of nameless_state = []"
    by (simp add: nameless_state_def)
  from fallback_names [OF n nameless_valid, of coffee_fetch "JStr ''a1''" "JStr ''p1''"
      "JStr ''+14155551234''"]
  show ?thesis
    by (simp add: n nameless_valid coffee_fetch_def scripted_create scripted_purchase
        scripted_associate)
qed

text \<open>
  C7 as stated fails: with the display name left empty the result's agent name is
  "VAPI Agent", but neither the greeting nor the system prompt contains that text.
\<close>

theorem same_fallback_counterexample:
  "agentName_of nameless_state = []
   \<and> result_of (final_state nameless_state (handleSubmit coffee_fetch nameless_state))
      = Some \<lparr>assistantId = JStr ''a1'', phoneNumberId = JStr ''p1'',
          phoneNumber = JStr ''+14155551234'', agentName = ''VAPI Agent''\<rparr>
   \<and> \<not> sublist ''VAPI Agent'' (first_message nameless_state)
   \<and> \<not> sublist ''VAPI Agent'' (generateSystemPrompt (prompt_of nameless_state))"
proof -
  have "\<not> sublist ''VAPI Agent'' (first_message nameless_state)"
    by code_simp
  moreover have "\<not> sublist ''VAPI Agent'' (generateSystemPrompt (prompt_of nameless_state))"
    by code_simp
  ultimately show ?thesis
    by (simp add: coffee_success nameless_valid final_state_def)
      (simp add: nameless_state_def or_else_def)
qed

end
